theory Spec2Isabelle
  imports
    Main
    "HOL-Library.Multiset"
    "HOL-Library.Char_ord"
    "HOL-Library.List_Lexorder"
    "HOL-Library.Option_ord"
    "HOL-Library.Product_Lexorder"
begin

section \<open>Data model (models/Contest.js, models/Participation.js)\<close>

text \<open>
  Dates are compared by their millisecond value, so a date is an \<open>int\<close>.  Document ids
  (\<open>_id\<close>, \<open>userId\<close>, \<open>contestId\<close>) are natural numbers.  The numeric fields that the
  schemas and the request validation keep to non-negative integers (indices, points,
  counters) are \<open>nat\<close>.
\<close>

type_synonym date = int

datatype qtype = SingleSelect | MultiSelect | TrueFalse

record opt =
  option_text :: string
  isCorrect :: bool

record question =
  questionText :: string
  qtype :: qtype
  options :: "opt list"
  points :: nat

datatype ctype = NORMAL | VIP

datatype status = UPCOMING | ONGOING | ENDED

record contest =
  name :: string
  description :: string
  ctype :: ctype
  startTime :: date
  endTime :: date
  prizeInfo :: string
  createdBy :: nat
  status :: status
  questions :: "question list"
  maxParticipants :: nat
  currentParticipants :: nat
  isActive :: bool

record answer =
  questionIndex :: nat
  selectedOptions :: "nat list"
  answerIsCorrect :: bool
  pointsEarned :: nat

record participation =
  participation_id :: nat
  userId :: nat
  contestId :: nat
  joinedAt :: date
  submittedAt :: "date option"
  answers :: "answer list"
  score :: nat
  totalQuestions :: nat
  correctAnswers :: nat
  wrongAnswers :: nat
  rank :: "nat option"
  isCompleted :: bool
  timeSpent :: int

section \<open>JavaScript arrays\<close>

text \<open>Reading \<open>xs[i]\<close>: \<open>undefined\<close> (here \<open>None\<close>) when the index is out of range.\<close>

definition at_index :: "'a list \<Rightarrow> nat \<Rightarrow> 'a option" where
  "at_index xs i = (if i < length xs then Some (xs ! i) else None)"

text \<open>
  \<open>Array.prototype.sort()\<close> without a comparator orders the elements by their string
  conversion, compared by code units, and is stable.  \<open>toString\<close> is the decimal
  notation of a non-negative integer (the notation JavaScript prints below \<open>10^21\<close>).
\<close>

definition digit_char :: "nat \<Rightarrow> char" where
  "digit_char d = char_of (48 + d)"

function toString :: "nat \<Rightarrow> string" where
  "toString n =
     (if n < 10 then [digit_char n] else toString (n div 10) @ [digit_char (n mod 10)])"
  by pat_completeness auto
termination
  by (relation "measure (\<lambda>n. n)") auto

declare toString.simps [simp del]

definition js_sort :: "nat list \<Rightarrow> nat list" where
  "js_sort xs = sort_key toString xs"

section \<open>Participation.calculateScore (models/Participation.js)\<close>

text \<open>
  \<open>correctOptions\<close>: the indices of the options whose flag is set, in ascending order
  (lines 100-103).
\<close>

definition correctOptions :: "question \<Rightarrow> nat list" where
  "correctOptions q =
     map fst (filter snd (map (\<lambda>(i, p). (i, isCorrect p)) (enumerate 0 (options q))))"

text \<open>Lines 96-97 and 112-113: the flag of the option at the first selected index.\<close>

definition firstSelectedCorrect :: "question \<Rightarrow> nat list \<Rightarrow> bool" where
  "firstSelectedCorrect q sel =
     (case sel of
        [] \<Rightarrow> False
      | i # _ \<Rightarrow> (case at_index (options q) i of None \<Rightarrow> False | Some p \<Rightarrow> isCorrect p))"

text \<open>Lines 105-109: both arrays sorted, equal lengths and equal elements position by position.\<close>

definition multiSelectCorrect :: "question \<Rightarrow> nat list \<Rightarrow> bool" where
  "multiSelectCorrect q sel =
     (let selectedOptions = js_sort sel;
          correctOptionsSorted = js_sort (correctOptions q)
      in length selectedOptions = length correctOptionsSorted \<and>
         list_all (\<lambda>(index, option). at_index correctOptionsSorted index = Some option)
           (enumerate 0 selectedOptions))"

text \<open>The value of \<open>isCorrect\<close> at line 116, for a question that exists.\<close>

definition grade :: "question \<Rightarrow> nat list \<Rightarrow> bool" where
  "grade q sel =
     (case qtype q of
        SingleSelect \<Rightarrow> firstSelectedCorrect q sel
      | MultiSelect \<Rightarrow> multiSelectCorrect q sel
      | TrueFalse \<Rightarrow> firstSelectedCorrect q sel)"

text \<open>
  The callback of \<open>this.answers.forEach\<close> on an answer whose question exists: the answer
  gets its flag and its points; a multi-select answer has its selection sorted in place.
\<close>

definition gradeAnswer :: "question \<Rightarrow> answer \<Rightarrow> answer" where
  "gradeAnswer q a =
     (let c = grade q (selectedOptions a)
      in a\<lparr>selectedOptions :=
              (if qtype q = MultiSelect then js_sort (selectedOptions a) else selectedOptions a),
            answerIsCorrect := c,
            pointsEarned := (if c then points q else 0)\<rparr>)"

text \<open>
  The \<open>forEach\<close> loop with its three counters \<open>(totalScore, correctCount, wrongCount)\<close>.
  An answer whose question does not exist leaves the callback at line 90.
\<close>

fun scoreAnswers ::
  "question list \<Rightarrow> answer list \<Rightarrow> nat \<times> nat \<times> nat \<Rightarrow> answer list \<times> (nat \<times> nat \<times> nat)" where
  "scoreAnswers qs [] acc = ([], acc)"
| "scoreAnswers qs (a # as) (totalScore, correctCount, wrongCount) =
     (case at_index qs (questionIndex a) of
        None \<Rightarrow>
          (let (as', acc') = scoreAnswers qs as (totalScore, correctCount, wrongCount)
           in (a # as', acc'))
      | Some q \<Rightarrow>
          (let a' = gradeAnswer q a;
               (as', acc') = scoreAnswers qs as
                  (totalScore + pointsEarned a',
                   (if answerIsCorrect a' then correctCount + 1 else correctCount),
                   (if answerIsCorrect a' then wrongCount else wrongCount + 1))
           in (a' # as', acc')))"

record summary =
  sum_score :: nat
  sum_correctAnswers :: nat
  sum_wrongAnswers :: nat

text \<open>\<open>calculateScore\<close>: the participation after the call, and the returned summary.\<close>

definition calculateScore :: "date \<Rightarrow> question list \<Rightarrow> participation \<Rightarrow> participation \<times> summary" where
  "calculateScore now contestQuestions p =
     (let (as', (totalScore, correctCount, wrongCount)) =
            scoreAnswers contestQuestions (answers p) (0, 0, 0)
      in (p\<lparr>answers := as',
             score := totalScore,
             correctAnswers := correctCount,
             wrongAnswers := wrongCount,
             isCompleted := True,
             submittedAt := Some now\<rparr>,
          \<lparr>sum_score = totalScore, sum_correctAnswers = correctCount,
           sum_wrongAnswers = wrongCount\<rparr>))"

text \<open>\<open>calculateTimeSpent\<close>: whole seconds between joining and submitting.\<close>

definition calculateTimeSpent :: "participation \<Rightarrow> participation" where
  "calculateTimeSpent p =
     (case submittedAt p of
        None \<Rightarrow> p
      | Some s \<Rightarrow> p\<lparr>timeSpent := (s - joinedAt p) div 1000\<rparr>)"

section \<open>The store and the responses\<close>

text \<open>
  The durable store: contests by id, and the participation collection.  The document
  that \<open>Contest.findById(id)\<close> returns carries \<open>id\<close> as its \<open>_id\<close>, so
  \<open>contest._id\<close> is the id that was looked up.
\<close>

datatype role = Normal | Vip | Admin

record user =
  user_id :: nat
  role :: role

record store =
  contests :: "nat \<rightharpoonup> contest"
  participations :: "participation list"

text \<open>A leaderboard row: the selected fields and the rank written by the handler.\<close>

record entry =
  e_userId :: nat
  e_score :: nat
  e_correctAnswers :: nat
  e_wrongAnswers :: nat
  e_submittedAt :: "date option"
  e_timeSpent :: int
  e_rank :: nat

text \<open>
  One constructor per response body of the handlers: the messages of the \<open>400\<close>
  responses, the success payloads, and the \<open>catch\<close> block's "Internal Server Error".
\<close>

datatype response =
    ContestNotFound
  | ContestNotActive
  | AccessDeniedVip
  | AlreadyJoinedContest
  | NotStartedYet
  | AlreadyEnded
  | NotCurrentlyActive
  | ContestFull
  | Joined participation
  | MustJoinFirst
  | AlreadySubmitted
  | ContestEnded
  | MustAnswerAll nat
  | InvalidQuestionIndex nat
  | InvalidOptionIndex nat nat
  | RequiresExactlyOne nat
  | Submitted summary nat "date option" int
  | LeaderboardAccessDenied
  | Leaderboard "entry list" "nat option"
  | CannotAddAfterStart
  | TrueFalseTwoOptions
  | SingleSelectOneCorrect
  | NoCorrectOption
  | QuestionAdded question nat
  | InvalidQuestionIndexParam
  | CannotUpdateAfterStart
  | QuestionUpdated "question option"
  | CannotDeleteAfterStart
  | QuestionDeleted nat
  | AdminLeaderboard "entry list"
  | InternalServerError

text \<open>
  The error kinds that the responses stand for: those of the specification's taxonomy,
  and two kinds for the rejections of the question handlers, which the taxonomy leaves
  unnamed.
\<close>

datatype kind =
    NotFound | AccessDenied | NotOpen | Full | AlreadyJoined | AlreadyCompleted
  | Ended | AnswerCountMismatch | InvalidAnswer | QuestionsFrozen | InvalidQuestion
  | StoreUnavailable

fun kind_of :: "response \<Rightarrow> kind option" where
  "kind_of ContestNotFound = Some NotFound"
| "kind_of ContestNotActive = Some NotFound"
| "kind_of AccessDeniedVip = Some AccessDenied"
| "kind_of AlreadyJoinedContest = Some AlreadyJoined"
| "kind_of NotStartedYet = Some NotOpen"
| "kind_of AlreadyEnded = Some NotOpen"
| "kind_of NotCurrentlyActive = Some NotOpen"
| "kind_of ContestFull = Some Full"
| "kind_of (Joined p) = None"
| "kind_of MustJoinFirst = Some NotFound"
| "kind_of AlreadySubmitted = Some AlreadyCompleted"
| "kind_of ContestEnded = Some Ended"
| "kind_of (MustAnswerAll n) = Some AnswerCountMismatch"
| "kind_of (InvalidQuestionIndex i) = Some InvalidAnswer"
| "kind_of (InvalidOptionIndex i n) = Some InvalidAnswer"
| "kind_of (RequiresExactlyOne n) = Some InvalidAnswer"
| "kind_of (Submitted s n t d) = None"
| "kind_of LeaderboardAccessDenied = Some AccessDenied"
| "kind_of (Leaderboard es r) = None"
| "kind_of CannotAddAfterStart = Some QuestionsFrozen"
| "kind_of TrueFalseTwoOptions = Some InvalidQuestion"
| "kind_of SingleSelectOneCorrect = Some InvalidQuestion"
| "kind_of NoCorrectOption = Some InvalidQuestion"
| "kind_of (QuestionAdded q n) = None"
| "kind_of InvalidQuestionIndexParam = Some InvalidQuestion"
| "kind_of CannotUpdateAfterStart = Some QuestionsFrozen"
| "kind_of (QuestionUpdated q) = None"
| "kind_of CannotDeleteAfterStart = Some QuestionsFrozen"
| "kind_of (QuestionDeleted n) = None"
| "kind_of (AdminLeaderboard es) = None"
| "kind_of InternalServerError = Some StoreUnavailable"

section \<open>Contest: status and the pre-save hook (models/Contest.js)\<close>

text \<open>
  \<open>updateStatus\<close> assigns the status from the clock (lines 112-120) and then saves the
  document; this is the assignment.
\<close>

definition updateStatus :: "date \<Rightarrow> contest \<Rightarrow> contest" where
  "updateStatus now c =
     (if now < startTime c then c\<lparr>status := UPCOMING\<rparr>
      else if now \<ge> startTime c \<and> now \<le> endTime c then c\<lparr>status := ONGOING\<rparr>
      else c\<lparr>status := ENDED\<rparr>)"

text \<open>
  The pre-save hook reports an error for a question with no correct option, a
  single-select question with more than one, or a true-false question without exactly two
  options and exactly one correct.  The first \<open>next(error)\<close> decides the save.
\<close>

definition questionRejected :: "question \<Rightarrow> bool" where
  "questionRejected q =
     (let correctOptions = filter isCorrect (options q)
      in length correctOptions = 0 \<or>
         (qtype q = SingleSelect \<and> length correctOptions > 1) \<or>
         (qtype q = TrueFalse \<and> (length (options q) \<noteq> 2 \<or> length correctOptions \<noteq> 1)))"

definition preSave :: "contest \<Rightarrow> bool" where
  "preSave c = (\<not> list_ex questionRejected (questions c))"

text \<open>
  The validators of the contest schema.  A required string is not empty and keeps to its
  maximal length; the end is after the start; the points of a question and the capacity
  are at least 1.  The required fields that are a number, a date, a flag or an id are
  always present in a record, and the \<open>enum\<close> fields are datatypes.  The validators
  are checked on the whole document.
\<close>

definition requiredString :: "nat \<Rightarrow> string \<Rightarrow> bool" where
  "requiredString maxlength s = (length s > 0 \<and> length s \<le> maxlength)"

definition optionValid :: "opt \<Rightarrow> bool" where
  "optionValid p = requiredString 200 (option_text p)"

definition questionValid :: "question \<Rightarrow> bool" where
  "questionValid q =
     (requiredString 500 (questionText q) \<and> list_all optionValid (options q) \<and> points q \<ge> 1)"

definition schemaValid :: "contest \<Rightarrow> bool" where
  "schemaValid c =
     (requiredString 100 (name c) \<and>
      requiredString 500 (description c) \<and>
      endTime c > startTime c \<and>
      requiredString 200 (prizeInfo c) \<and>
      list_all questionValid (questions c) \<and>
      maxParticipants c \<ge> 1)"

text \<open>
  \<open>contest.save()\<close> validates the document against the schema and runs the pre-save
  hook; \<open>None\<close> when either rejects the document (the call throws).
\<close>

definition saveAccepts :: "contest \<Rightarrow> bool" where
  "saveAccepts c = (schemaValid c \<and> preSave c)"

definition contest_save :: "nat \<Rightarrow> contest \<Rightarrow> store \<Rightarrow> store option" where
  "contest_save cid c db =
     (if saveAccepts c then Some (db\<lparr>contests := (contests db)(cid \<mapsto> c)\<rparr>) else None)"

section \<open>Participation queries and writes\<close>

definition findOne :: "nat \<Rightarrow> nat \<Rightarrow> store \<Rightarrow> participation option" where
  "findOne uid cid db = find (\<lambda>p. userId p = uid \<and> contestId p = cid) (participations db)"

definition fresh_id :: "participation list \<Rightarrow> nat" where
  "fresh_id ps = Suc (fold max (map participation_id ps) 0)"

text \<open>
  \<open>Participation.create\<close> with the schema's defaults.  The unique index on
  \<open>(userId, contestId)\<close> makes the call throw (\<open>None\<close>) when the pair is already there.
  The validators of the participation schema (required ids and counts, numbers that are
  not negative) hold of every record of the type.
\<close>

definition Participation_create ::
  "nat \<Rightarrow> nat \<Rightarrow> nat \<Rightarrow> date \<Rightarrow> store \<Rightarrow> (participation \<times> store) option" where
  "Participation_create uid cid nquestions now db =
     (if list_ex (\<lambda>p. userId p = uid \<and> contestId p = cid) (participations db) then None
      else
        (let p = \<lparr>participation_id = fresh_id (participations db),
                  userId = uid, contestId = cid, joinedAt = now, submittedAt = None,
                  answers = [], score = 0, totalQuestions = nquestions, correctAnswers = 0,
                  wrongAnswers = 0, rank = None, isCompleted = False, timeSpent = 0\<rparr>
         in Some (p, db\<lparr>participations := participations db @ [p]\<rparr>)))"

text \<open>\<open>participation.save()\<close>: the stored document with this \<open>_id\<close> is replaced.\<close>

definition participation_save :: "participation \<Rightarrow> store \<Rightarrow> store" where
  "participation_save p db =
     db\<lparr>participations :=
          map (\<lambda>d. if participation_id d = participation_id p then p else d)
            (participations db)\<rparr>"

section \<open>joinContest (services/userService.js)\<close>

text \<open>Every clock read of one request returns the same instant \<open>now\<close>.\<close>

definition joinContest :: "store \<Rightarrow> user \<Rightarrow> nat \<Rightarrow> date \<Rightarrow> response \<times> store" where
  "joinContest db u cid now =
     (case contests db cid of
        None \<Rightarrow> (ContestNotFound, db)
      | Some contest \<Rightarrow>
          if \<not> isActive contest then (ContestNotActive, db)
          else if ctype contest = VIP \<and> role u \<noteq> Vip \<and> role u \<noteq> Admin
            then (AccessDeniedVip, db)
          else (case findOne (user_id u) cid db of
             Some existingParticipation \<Rightarrow> (AlreadyJoinedContest, db)
           | None \<Rightarrow>
               if now < startTime contest then (NotStartedYet, db)
               else if now > endTime contest then (AlreadyEnded, db)
               else if status contest \<noteq> ONGOING then (NotCurrentlyActive, db)
               else if currentParticipants contest \<ge> maxParticipants contest
                 then (ContestFull, db)
               else (case Participation_create (user_id u) cid
                            (length (questions contest)) now db of
                  None \<Rightarrow> (InternalServerError, db)
                | Some (participation, db1) \<Rightarrow>
                    (case contest_save cid
                            (contest\<lparr>currentParticipants := currentParticipants contest + 1\<rparr>)
                            db1 of
                       None \<Rightarrow> (InternalServerError, db1)
                     | Some db2 \<Rightarrow> (Joined participation, db2)))))"


section \<open>submitContest (services/userService.js)\<close>

text \<open>
  The response object: \<open>None\<close> until a response has been sent.  Sending a second
  response throws (\<open>Inl\<close>, the headers are already sent) and leaves the first one in
  place; otherwise the call returns (\<open>Inr\<close>).
\<close>

type_synonym res = "response option"

definition send :: "response \<Rightarrow> res \<Rightarrow> res + res" where
  "send r res = (case res of None \<Rightarrow> Inr (Some r) | Some first \<Rightarrow> Inl res)"

text \<open>An answer as the request body carries it.\<close>

record req_answer =
  req_questionIndex :: nat
  req_selectedOptions :: "nat list"

text \<open>
  Lines 360-369, \<open>answer.selectedOptions.forEach\<close>: the \<open>return\<close> after a response
  leaves the callback of one option; the loop goes on with the next option.  An option
  index is a natural number, so of the test \<open>optionIndex < 0 || optionIndex >= length\<close>
  the second half remains.
\<close>

fun validateOptions :: "nat \<Rightarrow> question \<Rightarrow> nat list \<Rightarrow> res \<Rightarrow> res + res" where
  "validateOptions index question [] res = Inr res"
| "validateOptions index question (optionIndex # rest) res =
     (if optionIndex \<ge> length (options question) then
        (case send (InvalidOptionIndex optionIndex (index + 1)) res of
           Inl thrown \<Rightarrow> Inl thrown
         | Inr res' \<Rightarrow> validateOptions index question rest res')
      else validateOptions index question rest res)"

text \<open>Lines 350-391, the callback of \<open>answers.forEach\<close> for one answer.\<close>

definition validateAnswer :: "question list \<Rightarrow> nat \<Rightarrow> req_answer \<Rightarrow> res \<Rightarrow> res + res" where
  "validateAnswer qs index a res =
     (case at_index qs (req_questionIndex a) of
        None \<Rightarrow> send (InvalidQuestionIndex (req_questionIndex a)) res
      | Some question \<Rightarrow>
          (case validateOptions index question (req_selectedOptions a) res of
             Inl thrown \<Rightarrow> Inl thrown
           | Inr res' \<Rightarrow>
               if qtype question = SingleSelect \<and> length (req_selectedOptions a) \<noteq> 1
                 then send (RequiresExactlyOne (index + 1)) res'
               else if qtype question = TrueFalse \<and> length (req_selectedOptions a) \<noteq> 1
                 then send (RequiresExactlyOne (index + 1)) res'
               else Inr res'))"

text \<open>
  \<open>answers.forEach\<close>: the \<open>return\<close> of a callback ends that callback only, so the loop
  visits every answer unless a call throws.
\<close>

fun validateAnswers :: "question list \<Rightarrow> nat \<Rightarrow> req_answer list \<Rightarrow> res \<Rightarrow> res + res" where
  "validateAnswers qs index [] res = Inr res"
| "validateAnswers qs index (a # rest) res =
     (case validateAnswer qs index a res of
        Inl thrown \<Rightarrow> Inl thrown
      | Inr res' \<Rightarrow> validateAnswers qs (index + 1) rest res')"

text \<open>
  The handler.  The response of the pair is the one the client receives: the first one
  sent.  After the loop the handler grades \<open>participation.answers\<close> (the stored answers;
  the request's answers are not copied into the participation), saves, and sends the
  summary; when a response is already out, that last send throws, and so does the one of
  the \<open>catch\<close> block.
\<close>

definition submitContest ::
  "store \<Rightarrow> user \<Rightarrow> nat \<Rightarrow> req_answer list \<Rightarrow> date \<Rightarrow> response \<times> store" where
  "submitContest db u cid reqAnswers now =
     (case contests db cid of
        None \<Rightarrow> (ContestNotFound, db)
      | Some contest \<Rightarrow>
          (case findOne (user_id u) cid db of
             None \<Rightarrow> (MustJoinFirst, db)
           | Some participation \<Rightarrow>
               if isCompleted participation then (AlreadySubmitted, db)
               else if now > endTime contest then (ContestEnded, db)
               else if length reqAnswers \<noteq> length (questions contest)
                 then (MustAnswerAll (length (questions contest)), db)
               else (case validateAnswers (questions contest) 0 reqAnswers None of
                  Inl thrown \<Rightarrow>
                    ((case thrown of None \<Rightarrow> InternalServerError | Some first \<Rightarrow> first), db)
                | Inr res \<Rightarrow>
                    (let (p1, scoreResult) = calculateScore now (questions contest) participation;
                         p2 = calculateTimeSpent p1;
                         db' = participation_save p2 db
                     in ((case res of
                            None \<Rightarrow> Submitted scoreResult (length (questions contest))
                                      (submittedAt p2) (timeSpent p2)
                          | Some first \<Rightarrow> first),
                         db')))))"

section \<open>Leaderboards\<close>

text \<open>
  \<open>.sort({ score: -1, submittedAt: 1 })\<close>: score descending, then submission date
  ascending, where an absent date sorts before every date.  The store leaves the order
  of documents with equal keys open; the stable sort is one such order.
\<close>

definition sort_key_of :: "participation \<Rightarrow> int \<times> date option" where
  "sort_key_of p = (- int (score p), submittedAt p)"

definition mongo_sort :: "participation list \<Rightarrow> participation list" where
  "mongo_sort ps = sort_key sort_key_of ps"

text \<open>The selected fields, and \<open>participant.rank = index + 1\<close>.\<close>

definition to_entry :: "nat \<times> participation \<Rightarrow> entry" where
  "to_entry ip =
     (case ip of (index, p) \<Rightarrow>
        \<lparr>e_userId = userId p, e_score = score p, e_correctAnswers = correctAnswers p,
         e_wrongAnswers = wrongAnswers p, e_submittedAt = submittedAt p,
         e_timeSpent = timeSpent p, e_rank = index + 1\<rparr>)"

definition addRanks :: "participation list \<Rightarrow> entry list" where
  "addRanks ps = map to_entry (enumerate 0 ps)"

text \<open>\<open>{ $lt: date }\<close> matches a stored date that is earlier; an absent date never matches.\<close>

definition mongo_lt :: "date option \<Rightarrow> date option \<Rightarrow> bool" where
  "mongo_lt a b = (case (a, b) of (Some x, Some y) \<Rightarrow> x < y | _ \<Rightarrow> False)"

text \<open>Lines 458-480 of userService.js: the caller's own rank.\<close>

definition userRank :: "store \<Rightarrow> user option \<Rightarrow> nat \<Rightarrow> nat option" where
  "userRank db req_user cid =
     (case req_user of
        None \<Rightarrow> None
      | Some u \<Rightarrow>
          (case find (\<lambda>p. userId p = user_id u \<and> contestId p = cid \<and> isCompleted p)
                  (participations db) of
             None \<Rightarrow> None
           | Some userParticipation \<Rightarrow>
               Some (length (filter
                  (\<lambda>p. contestId p = cid \<and> isCompleted p \<and>
                       (score p > score userParticipation \<or>
                        (score p = score userParticipation \<and>
                         mongo_lt (submittedAt p) (submittedAt userParticipation))))
                  (participations db)) + 1)))"

definition contestLeaderboard :: "store \<Rightarrow> user option \<Rightarrow> nat \<Rightarrow> response" where
  "contestLeaderboard db req_user cid =
     (case contests db cid of
        None \<Rightarrow> ContestNotFound
      | Some contest \<Rightarrow>
          if ctype contest = VIP \<and>
             (case req_user of None \<Rightarrow> True | Some u \<Rightarrow> role u \<noteq> Vip \<and> role u \<noteq> Admin)
            then LeaderboardAccessDenied
          else Leaderboard
                 (addRanks (take 100 (mongo_sort
                    (filter (\<lambda>p. contestId p = cid \<and> isCompleted p) (participations db)))))
                 (userRank db req_user cid))"

text \<open>The administrative leaderboard (adminService, \<open>getLeaderboard\<close>).\<close>

definition getLeaderboard :: "store \<Rightarrow> nat \<Rightarrow> response" where
  "getLeaderboard db cid =
     (case contests db cid of
        None \<Rightarrow> ContestNotFound
      | Some contest \<Rightarrow>
          AdminLeaderboard
            (addRanks (mongo_sort (filter (\<lambda>p. contestId p = cid) (participations db)))))"

section \<open>Question handlers (adminService)\<close>

text \<open>
  The request body of \<open>addQuestion\<close> and \<open>editQuestion\<close> has the fields of a question;
  \<open>points || 1\<close> replaces a zero by one.
\<close>

definition fromBody :: "question \<Rightarrow> question" where
  "fromBody body = body\<lparr>points := (if points body = 0 then 1 else points body)\<rparr>"

definition addQuestion :: "store \<Rightarrow> nat \<Rightarrow> question \<Rightarrow> date \<Rightarrow> response \<times> store" where
  "addQuestion db cid body now =
     (case contests db cid of
        None \<Rightarrow> (ContestNotFound, db)
      | Some contest \<Rightarrow>
          if now \<ge> startTime contest then (CannotAddAfterStart, db)
          else if qtype body = TrueFalse \<and> length (options body) \<noteq> 2
            then (TrueFalseTwoOptions, db)
          else if qtype body = SingleSelect \<and> length (filter isCorrect (options body)) \<noteq> 1
            then (SingleSelectOneCorrect, db)
          else if length (filter isCorrect (options body)) = 0 then (NoCorrectOption, db)
          else (let contest' = contest\<lparr>questions := questions contest @ [fromBody body]\<rparr>
                in case contest_save cid contest' db of
                     None \<Rightarrow> (InternalServerError, db)
                   | Some db' \<Rightarrow>
                       (QuestionAdded (fromBody body) (length (questions contest')), db')))"

text \<open>
  \<open>parseInt\<close> of the path parameter is an integer or \<open>NaN\<close> (\<open>None\<close>).  Both comparisons
  of the range check are false for \<open>NaN\<close>.  An assignment at index \<open>NaN\<close> sets a property
  of that name and no element; \<open>splice(NaN, 1)\<close> starts at index 0.
\<close>

definition indexOutOfRange :: "int option \<Rightarrow> 'a list \<Rightarrow> bool" where
  "indexOutOfRange qIndex qs =
     (case qIndex of None \<Rightarrow> False | Some i \<Rightarrow> i < 0 \<or> i \<ge> int (length qs))"

definition editQuestion ::
  "store \<Rightarrow> nat \<Rightarrow> int option \<Rightarrow> question \<Rightarrow> date \<Rightarrow> response \<times> store" where
  "editQuestion db cid qIndex body now =
     (case contests db cid of
        None \<Rightarrow> (ContestNotFound, db)
      | Some contest \<Rightarrow>
          if indexOutOfRange qIndex (questions contest)
            then (InvalidQuestionIndexParam, db)
          else if now \<ge> startTime contest then (CannotUpdateAfterStart, db)
          else (let qs' = (case qIndex of
                             None \<Rightarrow> questions contest
                           | Some i \<Rightarrow> (questions contest)[nat i := fromBody body]);
                    contest' = contest\<lparr>questions := qs'\<rparr>
                in case contest_save cid contest' db of
                     None \<Rightarrow> (InternalServerError, db)
                   | Some db' \<Rightarrow>
                       (QuestionUpdated
                          (case qIndex of
                             None \<Rightarrow> Some (fromBody body)
                           | Some i \<Rightarrow> at_index qs' (nat i)),
                        db')))"

definition deleteQuestion :: "store \<Rightarrow> nat \<Rightarrow> int option \<Rightarrow> date \<Rightarrow> response \<times> store" where
  "deleteQuestion db cid qIndex now =
     (case contests db cid of
        None \<Rightarrow> (ContestNotFound, db)
      | Some contest \<Rightarrow>
          if indexOutOfRange qIndex (questions contest)
            then (InvalidQuestionIndexParam, db)
          else if now \<ge> startTime contest then (CannotDeleteAfterStart, db)
          else (let i = (case qIndex of None \<Rightarrow> 0 | Some i \<Rightarrow> nat i);
                    qs' = take i (questions contest) @ drop (i + 1) (questions contest);
                    contest' = contest\<lparr>questions := qs'\<rparr>
                in case contest_save cid contest' db of
                     None \<Rightarrow> (InternalServerError, db)
                   | Some db' \<Rightarrow> (QuestionDeleted (length qs'), db')))"

text \<open>The three question mutations as one request type.\<close>

datatype question_request =
    AddQuestion question
  | EditQuestion "int option" question
  | DeleteQuestion "int option"

fun questionRequest :: "store \<Rightarrow> nat \<Rightarrow> question_request \<Rightarrow> date \<Rightarrow> response \<times> store" where
  "questionRequest db cid (AddQuestion body) now = addQuestion db cid body now"
| "questionRequest db cid (EditQuestion i body) now = editQuestion db cid i body now"
| "questionRequest db cid (DeleteQuestion i) now = deleteQuestion db cid i now"

section \<open>Properties stated about the handlers\<close>




text \<open>
  The ranking rule in the specification's words: a participation is strictly ahead of
  another one when its score is higher, or the scores are equal and it was submitted
  earlier.
\<close>

definition strictlyAhead :: "participation \<Rightarrow> participation \<Rightarrow> bool" where
  "strictlyAhead q p =
     (score q > score p \<or>
      (score q = score p \<and>
       (case submittedAt q of
          None \<Rightarrow> False
        | Some tq \<Rightarrow> (case submittedAt p of None \<Rightarrow> False | Some tp \<Rightarrow> tq < tp))))"

text \<open>
  The rank of one identity in the specification's words: absent without a completed
  participation, else one plus the number of other completed participations of the
  contest that are strictly ahead.
\<close>

definition rankOf_spec :: "store \<Rightarrow> nat \<Rightarrow> nat \<Rightarrow> nat option" where
  "rankOf_spec db uid cid =
     (case find (\<lambda>p. userId p = uid \<and> contestId p = cid \<and> isCompleted p)
             (participations db) of
        None \<Rightarrow> None
      | Some own \<Rightarrow>
          Some (1 + length (filter
             (\<lambda>q. q \<noteq> own \<and> contestId q = cid \<and> isCompleted q \<and> strictlyAhead q own)
             (participations db))))"

text \<open>
  The order of a leaderboard: score descending, then submission date ascending (an
  absent date before every date).
\<close>

definition in_rank_order :: "entry \<Rightarrow> entry \<Rightarrow> bool" where
  "in_rank_order a b =
     (e_score a > e_score b \<or> (e_score a = e_score b \<and> e_submittedAt a \<le> e_submittedAt b))"

definition entry_of :: "entry \<Rightarrow> participation \<Rightarrow> bool" where
  "entry_of e p =
     (e_userId e = userId p \<and> e_score e = score p \<and> e_correctAnswers e = correctAnswers p \<and>
      e_wrongAnswers e = wrongAnswers p \<and> e_submittedAt e = submittedAt p \<and>
      e_timeSpent e = timeSpent p)"

text \<open>Auxiliary functions of the proofs: reading a decimal numeral, and a tally's total.\<close>

definition digit_val :: "char \<Rightarrow> nat" where
  "digit_val c = of_char c - 48"

definition parse :: "string \<Rightarrow> nat" where
  "parse s = foldl (\<lambda>a c. 10 * a + digit_val c) 0 s"

definition tally_answered :: "nat \<times> nat \<times> nat \<Rightarrow> nat" where
  "tally_answered acc = fst (snd acc) + snd (snd acc)"

section \<open>Example data\<close>

definition q_multi :: question where
  "q_multi =
     \<lparr>questionText = ''Which of these are prime?'', qtype = MultiSelect,
      options = [\<lparr>option_text = ''2'', isCorrect = True\<rparr>,
                 \<lparr>option_text = ''4'', isCorrect = False\<rparr>,
                 \<lparr>option_text = ''5'', isCorrect = True\<rparr>],
      points = 5\<rparr>"

definition q_single :: question where
  "q_single =
     \<lparr>questionText = ''Which is the capital of France?'', qtype = SingleSelect,
      options = [\<lparr>option_text = ''Paris'', isCorrect = True\<rparr>,
                 \<lparr>option_text = ''Rome'', isCorrect = False\<rparr>],
      points = 2\<rparr>"

definition quiz :: contest where
  "quiz =
     \<lparr>name = ''Quiz'', description = ''A short quiz'', ctype = NORMAL,
      startTime = 1000, endTime = 2000, prizeInfo = ''A book'', createdBy = 1,
      status = ONGOING, questions = [q_single], maxParticipants = 2,
      currentParticipants = 1, isActive = True\<rparr>"

definition alice :: user where
  "alice = \<lparr>user_id = 7, role = Normal\<rparr>"

definition bob :: user where
  "bob = \<lparr>user_id = 8, role = Normal\<rparr>"

definition carol :: user where
  "carol = \<lparr>user_id = 9, role = Vip\<rparr>"

definition alice_joined :: participation where
  "alice_joined =
     \<lparr>participation_id = 1, userId = 7, contestId = 1, joinedAt = 1100, submittedAt = None,
      answers = [], score = 0, totalQuestions = 1, correctAnswers = 0, wrongAnswers = 0,
      rank = None, isCompleted = False, timeSpent = 0\<rparr>"

definition alice_done :: participation where
  "alice_done =
     alice_joined\<lparr>submittedAt := Some 1500, score := 2, correctAnswers := 1,
       isCompleted := True, timeSpent := 0\<rparr>"

definition bob_done :: participation where
  "bob_done =
     \<lparr>participation_id = 2, userId = 8, contestId = 1, joinedAt = 1200,
      submittedAt = Some 1400, answers = [], score = 2, totalQuestions = 1,
      correctAnswers = 1, wrongAnswers = 0, rank = None, isCompleted = True, timeSpent = 0\<rparr>"


text \<open>An answer list whose only answer names a question that does not exist.\<close>

definition stray_answers :: "answer list" where
  "stray_answers =
     [\<lparr>questionIndex = 4, selectedOptions = [0], answerIsCorrect = False, pointsEarned = 0\<rparr>]"

text \<open>Alice has joined the quiz and not submitted yet.\<close>

definition db_joined :: store where
  "db_joined = \<lparr>contests = [1 \<mapsto> quiz], participations = [alice_joined]\<rparr>"

text \<open>Alice and Bob have both submitted; Bob was earlier.\<close>

definition db_done :: store where
  "db_done =
     \<lparr>contests = [1 \<mapsto> quiz\<lparr>currentParticipants := 2\<rparr>],
      participations = [alice_done, bob_done]\<rparr>"

text \<open>Bob has submitted; Alice has joined and not submitted.\<close>

definition db_mixed :: store where
  "db_mixed =
     \<lparr>contests = [1 \<mapsto> quiz\<lparr>currentParticipants := 2\<rparr>],
      participations = [alice_joined, bob_done]\<rparr>"

section \<open>Sorting and grading lemmas\<close>

lemma of_char_digit: "d < 10 \<Longrightarrow> of_char (digit_char d) = (48 + d :: nat)"
  by (simp add: digit_char_def)

lemma parse_toString: "parse (toString n) = n"
proof (induction n rule: toString.induct)
  case (1 n)
  show ?case
  proof (cases "n < 10")
    case True
    then show ?thesis by (simp add: toString.simps[of n] parse_def digit_val_def of_char_digit)
  next
    case False
    with 1 have "parse (toString (n div 10)) = n div 10" by simp
    with False show ?thesis
      by (simp add: toString.simps[of n] parse_def digit_val_def of_char_digit)
  qed
qed

lemma toString_eq_iff: "toString a = toString b \<longleftrightarrow> a = b"
  by (metis parse_toString)

lemma mset_js_sort: "mset (js_sort xs) = mset xs"
  by (simp add: js_sort_def)

lemma js_sort_cong_mset:
  assumes "mset xs = mset ys"
  shows "js_sort xs = js_sort ys"
  unfolding js_sort_def
proof (rule properties_for_sort_key)
  show "mset (sort_key toString ys) = mset xs" using assms by simp
next
  fix k assume "k \<in> set (sort_key toString ys)"
  have "filter (\<lambda>x. toString k = toString x) zs = replicate (count (mset zs) k) k" for zs
    by (simp add: toString_eq_iff replicate_count_mset_eq_filter_eq)
  then show "filter (\<lambda>x. toString k = toString x) (sort_key toString ys)
           = filter (\<lambda>x. toString k = toString x) xs"
    using assms by simp
next
  show "sorted (map toString (sort_key toString ys))" by simp
qed

lemma js_sort_eq_iff: "js_sort xs = js_sort ys \<longleftrightarrow> mset xs = mset ys"
  by (metis js_sort_cong_mset mset_js_sort)

lemma every_index:
  "list_all (\<lambda>(index, option). at_index ys index = Some option) (enumerate 0 xs)
   \<longleftrightarrow> (\<forall>i<length xs. at_index ys i = Some (xs ! i))"
  by (simp add: list_all_length nth_enumerate_eq)

lemma every_index_eq:
  "(length xs = length ys \<and>
    list_all (\<lambda>(index, option). at_index ys index = Some option) (enumerate 0 xs))
   \<longleftrightarrow> xs = ys"
proof -
  have "length xs = length ys \<Longrightarrow>
        (\<forall>i<length xs. at_index ys i = Some (xs ! i)) \<longleftrightarrow> (\<forall>i<length xs. xs ! i = ys ! i)"
    by (auto simp: at_index_def)
  then show ?thesis
    unfolding every_index by (auto simp: list_eq_iff_nth_eq)
qed

lemma multiSelectCorrect_iff_mset:
  "multiSelectCorrect q sel \<longleftrightarrow> mset sel = mset (correctOptions q)"
  by (simp add: multiSelectCorrect_def Let_def every_index_eq js_sort_eq_iff)

lemma correctOptions_eq:
  "correctOptions q = map fst (filter (\<lambda>(i, p). isCorrect p) (enumerate 0 (options q)))"
  by (simp add: correctOptions_def filter_map comp_def case_prod_unfold)

lemma distinct_correctOptions: "distinct (correctOptions q)"
  unfolding correctOptions_eq by (rule distinct_map_filter) simp

lemma set_correctOptions:
  "set (correctOptions q) = {i. i < length (options q) \<and> isCorrect (options q ! i)}"
  unfolding correctOptions_eq by (auto simp: in_set_enumerate_eq image_iff)

lemma multiSelectCorrect_iff:
  "multiSelectCorrect q sel \<longleftrightarrow>
     distinct sel \<and> set sel = {i. i < length (options q) \<and> isCorrect (options q ! i)}"
proof -
  let ?cor = "correctOptions q"
  have "mset sel = mset ?cor \<longleftrightarrow> distinct sel \<and> set sel = set ?cor"
  proof
    assume eq: "mset sel = mset ?cor"
    from mset_eq_imp_distinct_iff [OF eq] distinct_correctOptions [of q] have "distinct sel"
      by simp
    moreover from mset_eq_setD [OF eq] have "set sel = set ?cor" .
    ultimately show "distinct sel \<and> set sel = set ?cor" by simp
  next
    assume "distinct sel \<and> set sel = set ?cor"
    then show "mset sel = mset ?cor"
      using set_eq_iff_mset_eq_distinct [of sel ?cor] distinct_correctOptions [of q] by simp
  qed
  then show ?thesis
    by (simp only: multiSelectCorrect_iff_mset set_correctOptions)
qed


section \<open>The scoring loop\<close>

lemma scoreAnswers_None:
  "at_index qs (questionIndex a) = None \<Longrightarrow>
     scoreAnswers qs (a # as) acc
       = (a # fst (scoreAnswers qs as acc), snd (scoreAnswers qs as acc))"
  by (cases acc) (simp add: case_prod_unfold Let_def)

lemma scoreAnswers_Some:
  "at_index qs (questionIndex a) = Some q \<Longrightarrow>
     scoreAnswers qs (a # as) (t, c, w)
       = (let acc = (t + pointsEarned (gradeAnswer q a),
                     (if answerIsCorrect (gradeAnswer q a) then c + 1 else c),
                     (if answerIsCorrect (gradeAnswer q a) then w else w + 1))
          in (gradeAnswer q a # fst (scoreAnswers qs as acc), snd (scoreAnswers qs as acc)))"
  by (simp add: case_prod_unfold Let_def)

lemma at_index_None_iff: "at_index xs i = None \<longleftrightarrow> \<not> i < length xs"
  by (simp add: at_index_def)

lemma at_index_Some_iff: "at_index xs i = Some x \<longleftrightarrow> i < length xs \<and> x = xs ! i"
  by (auto simp: at_index_def)

lemma scoreAnswers_counts:
  "tally_answered (snd (scoreAnswers qs as acc))
     = tally_answered acc + length (filter (\<lambda>a. questionIndex a < length qs) as)"
proof (induction as arbitrary: acc)
  case Nil
  then show ?case by simp
next
  case (Cons a as)
  obtain t c w where acc: "acc = (t, c, w)" by (cases acc) auto
  show ?case
  proof (cases "at_index qs (questionIndex a)")
    case None
    then show ?thesis
      using Cons.IH [of acc] by (simp add: scoreAnswers_None at_index_None_iff)
  next
    case (Some q)
    then have inr: "questionIndex a < length qs" by (simp add: at_index_Some_iff)
    show ?thesis
      unfolding acc scoreAnswers_Some [OF Some] Let_def snd_conv Cons.IH
      using inr by (simp add: tally_answered_def)
  qed
qed

lemma scoreAnswers_filter:
  "snd (scoreAnswers qs (filter (\<lambda>a. questionIndex a < length qs) as) acc)
     = snd (scoreAnswers qs as acc)"
proof (induction as arbitrary: acc)
  case Nil
  then show ?case by simp
next
  case (Cons a as)
  obtain t c w where acc: "acc = (t, c, w)" by (cases acc) auto
  show ?case
  proof (cases "at_index qs (questionIndex a)")
    case None
    then show ?thesis
      using Cons.IH [of acc] by (simp add: scoreAnswers_None at_index_None_iff)
  next
    case (Some q)
    then have inr: "questionIndex a < length qs" by (simp add: at_index_Some_iff)
    then have "filter (\<lambda>a. questionIndex a < length qs) (a # as)
        = a # filter (\<lambda>a. questionIndex a < length qs) as" by simp
    then show ?thesis
      unfolding acc by (simp only: scoreAnswers_Some [OF Some] Let_def snd_conv Cons.IH)
  qed
qed

lemma scoreAnswers_skipped:
  "length (fst (scoreAnswers qs as acc)) = length as \<and>
     (\<forall>i<length as. \<not> questionIndex (as ! i) < length qs \<longrightarrow>
        fst (scoreAnswers qs as acc) ! i = as ! i)"
proof (induction as arbitrary: acc)
  case Nil
  then show ?case by simp
next
  case (Cons a as)
  obtain t c w where acc: "acc = (t, c, w)" by (cases acc) auto
  show ?case
  proof (cases "at_index qs (questionIndex a)")
    case None
    then show ?thesis
      using Cons.IH [of acc] by (simp add: scoreAnswers_None nth_Cons split: nat.splits)
  next
    case (Some q)
    then have inr: "questionIndex a < length qs" by (simp add: at_index_Some_iff)
    show ?thesis
      unfolding acc scoreAnswers_Some [OF Some] Let_def fst_conv
      using Cons.IH inr by (simp add: nth_Cons split: nat.splits)
  qed
qed

lemma calculateScore_fst:
  "fst (calculateScore now qs p)
     = (let r = scoreAnswers qs (answers p) (0, 0, 0)
        in p\<lparr>answers := fst r, score := fst (snd r), correctAnswers := fst (snd (snd r)),
              wrongAnswers := snd (snd (snd r)), isCompleted := True,
              submittedAt := Some now\<rparr>)"
  by (simp add: calculateScore_def case_prod_unfold Let_def)

lemma calculateScore_snd:
  "snd (calculateScore now qs p)
     = (let r = scoreAnswers qs (answers p) (0, 0, 0)
        in \<lparr>sum_score = fst (snd r), sum_correctAnswers = fst (snd (snd r)),
            sum_wrongAnswers = snd (snd (snd r))\<rparr>)"
  by (simp add: calculateScore_def case_prod_unfold Let_def)


section \<open>Claims about grading\<close>

text \<open>
  What lines 100-109 compute for a multi-select question: the sorted arrays are equal
  exactly when the selection lists every correct option index once and nothing else, in
  any order.  The graded answer carries the question's points when correct and 0
  otherwise, and two selections that are permutations of each other grade alike.
\<close>

lemma multi_select_grading:
  assumes "qtype q = MultiSelect"
  shows "(grade q sel \<longleftrightarrow>
            distinct sel \<and> set sel = {i. i < length (options q) \<and> isCorrect (options q ! i)}) \<and>
         answerIsCorrect (gradeAnswer q a) = grade q (selectedOptions a) \<and>
         pointsEarned (gradeAnswer q a) = (if grade q (selectedOptions a) then points q else 0) \<and>
         (mset sel = mset sel' \<longrightarrow> grade q sel = grade q sel')"
proof -
  have g: "grade q xs = multiSelectCorrect q xs" for xs
    using assms by (simp add: grade_def)
  have "grade q sel \<longleftrightarrow>
          distinct sel \<and> set sel = {i. i < length (options q) \<and> isCorrect (options q ! i)}"
    unfolding g by (rule multiSelectCorrect_iff)
  moreover have "answerIsCorrect (gradeAnswer q a) = grade q (selectedOptions a)"
    by (simp add: gradeAnswer_def Let_def)
  moreover have "pointsEarned (gradeAnswer q a)
                   = (if grade q (selectedOptions a) then points q else 0)"
    by (simp add: gradeAnswer_def Let_def)
  moreover have "mset sel = mset sel' \<longrightarrow> grade q sel = grade q sel'"
    unfolding g by (simp add: multiSelectCorrect_iff_mset)
  ultimately show ?thesis by blast
qed

lemma multi_select_grading_example:
  "qtype q_multi = MultiSelect \<and> grade q_multi [0, 2] = grade q_multi [2, 0] \<and>
   pointsEarned (gradeAnswer q_multi
      \<lparr>questionIndex = 0, selectedOptions = [2, 0], answerIsCorrect = False, pointsEarned = 0\<rparr>)
     = (if grade q_multi [2, 0] then 5 else 0)"
proof -
  let ?a = "\<lparr>questionIndex = 0, selectedOptions = [2, 0], answerIsCorrect = False,
              pointsEarned = 0\<rparr>"
  have h: "qtype q_multi = MultiSelect" by (simp add: q_multi_def)
  have p: "points q_multi = 5" by (simp add: q_multi_def)
  note t = multi_select_grading [OF h, of "[0, 2]" ?a "[2, 0]"]
  from t [THEN conjunct2, THEN conjunct2, THEN conjunct2]
  have 1: "grade q_multi [0, 2] = grade q_multi [2, 0]" by simp
  from t [THEN conjunct2, THEN conjunct2, THEN conjunct1]
  have 2: "pointsEarned (gradeAnswer q_multi ?a) = (if grade q_multi [2, 0] then 5 else 0)"
    by (simp add: p)
  from h 1 2 show ?thesis by blast
qed


text \<open>
  C10.  \<open>calculateScore\<close> returns for every answer list.  The number of answers it
  counts, correct plus wrong, is the number of answers whose question index is in range;
  the returned summary is the one of the in-range answers alone; and an out-of-range
  answer stays in the list as it was.
\<close>

theorem calculateScore_skips_unknown_questions:
  "correctAnswers (fst (calculateScore now qs p)) + wrongAnswers (fst (calculateScore now qs p))
      = length (filter (\<lambda>a. questionIndex a < length qs) (answers p)) \<and>
   snd (calculateScore now qs p)
      = snd (calculateScore now qs
               (p\<lparr>answers := filter (\<lambda>a. questionIndex a < length qs) (answers p)\<rparr>)) \<and>
   length (answers (fst (calculateScore now qs p))) = length (answers p) \<and>
   (\<forall>i<length (answers p). \<not> questionIndex (answers p ! i) < length qs \<longrightarrow>
        answers (fst (calculateScore now qs p)) ! i = answers p ! i)"
proof -
  have c1: "correctAnswers (fst (calculateScore now qs p))
              + wrongAnswers (fst (calculateScore now qs p))
            = length (filter (\<lambda>a. questionIndex a < length qs) (answers p))"
    using scoreAnswers_counts [of qs "answers p" "(0, 0, 0)"]
    by (simp add: calculateScore_fst Let_def tally_answered_def)
  have c2: "snd (calculateScore now qs p)
      = snd (calculateScore now qs
               (p\<lparr>answers := filter (\<lambda>a. questionIndex a < length qs) (answers p)\<rparr>))"
    by (simp add: calculateScore_snd Let_def scoreAnswers_filter)
  have c3: "length (answers (fst (calculateScore now qs p))) = length (answers p) \<and>
   (\<forall>i<length (answers p). \<not> questionIndex (answers p ! i) < length qs \<longrightarrow>
        answers (fst (calculateScore now qs p)) ! i = answers p ! i)"
    using scoreAnswers_skipped [of qs "answers p" "(0, 0, 0)"]
    by (simp add: calculateScore_fst Let_def)
  from c1 c2 c3 show ?thesis by blast
qed

theorem calculateScore_skips_unknown_questions_witness:
  "correctAnswers (fst (calculateScore 1500 [q_single] (alice_joined\<lparr>answers := stray_answers\<rparr>)))
     + wrongAnswers (fst (calculateScore 1500 [q_single] (alice_joined\<lparr>answers := stray_answers\<rparr>)))
     = 0 \<and>
   totalQuestions alice_joined = 1 \<and>
   answers (fst (calculateScore 1500 [q_single] (alice_joined\<lparr>answers := stray_answers\<rparr>)))
     = stray_answers"
proof -
  have l: "length (answers (fst (calculateScore 1500 [q_single]
              (alice_joined\<lparr>answers := stray_answers\<rparr>)))) = 1 \<Longrightarrow>
           answers (fst (calculateScore 1500 [q_single]
              (alice_joined\<lparr>answers := stray_answers\<rparr>))) ! 0 = stray_answers ! 0 \<Longrightarrow>
           answers (fst (calculateScore 1500 [q_single]
              (alice_joined\<lparr>answers := stray_answers\<rparr>))) = stray_answers"
    by (simp add: list_eq_iff_nth_eq stray_answers_def)
  from calculateScore_skips_unknown_questions
          [of 1500 "[q_single]" "alice_joined\<lparr>answers := stray_answers\<rparr>"] l
  show ?thesis by (simp add: stray_answers_def alice_joined_def)
qed

section \<open>Claims about the contest status\<close>

text \<open>
  C7.  For a contest whose end is after its start (the schema's validator), the status
  that \<open>updateStatus\<close> assigns is UPCOMING exactly before the start, ONGOING exactly
  from the start to the end, both included, and ENDED exactly after the end.
\<close>

theorem updateStatus_partition:
  assumes "startTime c < endTime c"
  shows "(status (updateStatus now c) = UPCOMING \<longleftrightarrow> now < startTime c) \<and>
         (status (updateStatus now c) = ONGOING \<longleftrightarrow> startTime c \<le> now \<and> now \<le> endTime c) \<and>
         (status (updateStatus now c) = ENDED \<longleftrightarrow> now > endTime c)"
  using assms by (auto simp: updateStatus_def)

theorem updateStatus_partition_witness:
  "startTime quiz < endTime quiz \<and>
   status (updateStatus 999 quiz) = UPCOMING \<and>
   status (updateStatus 1000 quiz) = ONGOING \<and>
   status (updateStatus 2000 quiz) = ONGOING \<and>
   status (updateStatus 2001 quiz) = ENDED"
proof -
  have h: "startTime quiz < endTime quiz" by (simp add: quiz_def)
  from updateStatus_partition [OF h, of 999] updateStatus_partition [OF h, of 1000]
       updateStatus_partition [OF h, of 2000] updateStatus_partition [OF h, of 2001] h
  show ?thesis by (simp add: quiz_def)
qed

section \<open>Joining\<close>













text \<open>
  C8.  For an identity that may access an existing, active contest it has not joined, the
  join is rejected as not open when the request is before the start, or after the end,
  or the stored status is not ONGOING; the store is unchanged.
\<close>

theorem join_not_open:
  assumes "contests db cid = Some c" and "isActive c"
    and "\<not> (ctype c = VIP \<and> role u \<noteq> Vip \<and> role u \<noteq> Admin)"
    and "findOne (user_id u) cid db = None"
    and "now < startTime c \<or> endTime c < now \<or> status c \<noteq> ONGOING"
  shows "kind_of (fst (joinContest db u cid now)) = Some NotOpen \<and>
         snd (joinContest db u cid now) = db"
  using assms by (auto simp: joinContest_def)

theorem join_not_open_witness:
  "contests db_joined 1 = Some quiz \<and> isActive quiz \<and>
   findOne (user_id bob) 1 db_joined = None \<and>
   fst (joinContest db_joined bob 1 2001) = AlreadyEnded \<and>
   fst (joinContest db_joined bob 1 999) = NotStartedYet \<and>
   kind_of (fst (joinContest db_joined bob 1 2001)) = Some NotOpen \<and>
   kind_of (fst (joinContest db_joined bob 1 999)) = Some NotOpen \<and>
   snd (joinContest db_joined bob 1 2001) = db_joined"
proof -
  have c: "contests db_joined 1 = Some quiz" by (simp add: db_joined_def)
  have a: "isActive quiz" by (simp add: quiz_def)
  have t: "\<not> (ctype quiz = VIP \<and> role bob \<noteq> Vip \<and> role bob \<noteq> Admin)"
    by (simp add: quiz_def)
  have f: "findOne (user_id bob) 1 db_joined = None"
    by (simp add: findOne_def db_joined_def bob_def alice_joined_def)
  have w1: "2001 < startTime quiz \<or> endTime quiz < 2001 \<or> status quiz \<noteq> ONGOING"
    by (simp add: quiz_def)
  have w2: "999 < startTime quiz \<or> endTime quiz < 999 \<or> status quiz \<noteq> ONGOING"
    by (simp add: quiz_def)
  have e1: "fst (joinContest db_joined bob 1 2001) = AlreadyEnded"
    using c f by (simp add: joinContest_def quiz_def)
  have e2: "fst (joinContest db_joined bob 1 999) = NotStartedYet"
    using c f by (simp add: joinContest_def quiz_def)
  from join_not_open [OF c a t f w1] join_not_open [OF c a t f w2] c a f e1 e2
  show ?thesis by simp
qed

section \<open>Submitting\<close>

text \<open>
  C4.  When the caller's participation in an existing contest is already completed, a
  submit is answered "You have already submitted your answers" and the store, with the
  score, the answers, the counts and the submission date, is unchanged.
\<close>

theorem submit_write_once:
  assumes "contests db cid = Some c"
    and "findOne (user_id u) cid db = Some p"
    and "isCompleted p"
  shows "submitContest db u cid reqAnswers now = (AlreadySubmitted, db) \<and>
         kind_of AlreadySubmitted = Some AlreadyCompleted"
  using assms by (simp add: submitContest_def)

theorem submit_write_once_witness:
  "contests db_done 1 = Some (quiz\<lparr>currentParticipants := 2\<rparr>) \<and>
   findOne (user_id alice) 1 db_done = Some alice_done \<and>
   isCompleted alice_done \<and>
   submitContest db_done alice 1
      [\<lparr>req_questionIndex = 0, req_selectedOptions = [1]\<rparr>] 1600 = (AlreadySubmitted, db_done)"
proof -
  have c: "contests db_done 1 = Some (quiz\<lparr>currentParticipants := 2\<rparr>)"
    by (simp add: db_done_def)
  have f: "findOne (user_id alice) 1 db_done = Some alice_done"
    by (simp add: findOne_def db_done_def alice_def alice_done_def alice_joined_def)
  have d: "isCompleted alice_done" by (simp add: alice_done_def)
  from submit_write_once [OF c f d, of "[\<lparr>req_questionIndex = 0, req_selectedOptions = [1]\<rparr>]" 1600]
    c f d
  show ?thesis by simp
qed

text \<open>
  C1, at a failing input.  Alice has joined the quiz, which has one question, and submits
  one answer that names question 3.  The client is answered "Invalid question index: 3",
  and the participation is stored as completed with a score of 0 and a submission date.
\<close>

theorem submit_invalid_answer_completes:
  "fst (submitContest db_joined alice 1
          [\<lparr>req_questionIndex = 3, req_selectedOptions = [0]\<rparr>] 1500) = InvalidQuestionIndex 3 \<and>
   participations db_joined = [alice_joined] \<and>
   participations (snd (submitContest db_joined alice 1
          [\<lparr>req_questionIndex = 3, req_selectedOptions = [0]\<rparr>] 1500))
     = [alice_joined\<lparr>isCompleted := True, submittedAt := Some 1500\<rparr>]"
  by (simp add: submitContest_def db_joined_def quiz_def alice_def alice_joined_def
      findOne_def q_single_def at_index_def send_def validateAnswer_def calculateScore_def
      calculateTimeSpent_def participation_save_def)

section \<open>Question mutation\<close>

text \<open>
  C9.  For an existing contest, a request to add, edit or delete a question at or after
  the start is rejected and leaves the store, and so the question list, unchanged; a
  request that succeeds was made before the start.
\<close>

theorem questions_frozen_after_start:
  assumes "contests db cid = Some c"
  shows "(startTime c \<le> now \<longrightarrow>
            kind_of (fst (questionRequest db cid req now)) \<in> {Some QuestionsFrozen, Some InvalidQuestion} \<and>
            snd (questionRequest db cid req now) = db) \<and>
         (kind_of (fst (questionRequest db cid req now)) = None \<longrightarrow> now < startTime c)"
proof (cases req)
  case (AddQuestion body)
  with assms show ?thesis
    by (auto simp: addQuestion_def Let_def split: option.splits)
next
  case (EditQuestion i body)
  with assms show ?thesis
    by (auto simp: editQuestion_def Let_def split: option.splits)
next
  case (DeleteQuestion i)
  with assms show ?thesis
    by (auto simp: deleteQuestion_def Let_def split: option.splits)
qed

theorem questions_frozen_after_start_witness:
  "contests db_joined 1 = Some quiz \<and>
   fst (questionRequest db_joined 1 (AddQuestion q_multi) 1000) = CannotAddAfterStart \<and>
   snd (questionRequest db_joined 1 (AddQuestion q_multi) 1000) = db_joined \<and>
   fst (questionRequest db_joined 1 (AddQuestion q_multi) 999) = QuestionAdded q_multi 2"
proof -
  have c: "contests db_joined 1 = Some quiz" by (simp add: db_joined_def)
  have s: "startTime quiz = 1000" by (simp add: quiz_def)
  have e: "fst (questionRequest db_joined 1 (AddQuestion q_multi) 1000) = CannotAddAfterStart"
    using c s by (simp add: addQuestion_def)
  have ok: "fst (questionRequest db_joined 1 (AddQuestion q_multi) 999) = QuestionAdded q_multi 2"
    using c by (simp add: addQuestion_def quiz_def q_multi_def q_single_def fromBody_def
        contest_save_def saveAccepts_def schemaValid_def requiredString_def questionValid_def
        optionValid_def preSave_def questionRejected_def)
  from questions_frozen_after_start [OF c, of 1000 "AddQuestion q_multi"] c s e ok
  show ?thesis by simp
qed

section \<open>Leaderboards\<close>

lemma mset_mongo_sort: "mset (mongo_sort ps) = mset ps"
  by (simp add: mongo_sort_def)

lemma set_mongo_sort: "set (mongo_sort ps) = set ps"
  by (simp add: mongo_sort_def)

lemma length_mongo_sort: "length (mongo_sort ps) = length ps"
  by (simp add: mongo_sort_def)

lemma sorted_mongo_sort: "sorted (map sort_key_of (mongo_sort ps))"
  by (simp add: mongo_sort_def)

lemma key_le_rank_order:
  "sort_key_of p \<le> sort_key_of q \<Longrightarrow> in_rank_order (to_entry (i, p)) (to_entry (j, q))"
  by (auto simp: sort_key_of_def in_rank_order_def to_entry_def less_eq_prod_def)

lemma length_addRanks: "length (addRanks ps) = length ps"
  by (simp add: addRanks_def)

lemma nth_addRanks: "i < length ps \<Longrightarrow> addRanks ps ! i = to_entry (i, ps ! i)"
  by (simp add: addRanks_def nth_enumerate_eq)

lemma ranks_addRanks: "map e_rank (addRanks ps) = [1..<length ps + 1]"
proof -
  have "e_rank \<circ> to_entry = Suc \<circ> fst"
    by (rule ext) (simp add: to_entry_def case_prod_unfold)
  then have "map e_rank (addRanks ps) = map (Suc \<circ> fst) (enumerate 0 ps)"
    by (simp add: addRanks_def)
  also have "\<dots> = map Suc (map fst (enumerate 0 ps))"
    by (simp only: map_map)
  also have "\<dots> = map Suc [0..<length ps]"
    by (simp only: map_fst_enumerate add_0)
  also have "\<dots> = [1..<length ps + 1]"
    by (simp add: map_Suc_upt del: upt_Suc)
  finally show ?thesis .
qed

lemma sorted_addRanks:
  assumes "sorted (map sort_key_of ps)"
  shows "sorted_wrt in_rank_order (addRanks ps)"
proof -
  have "in_rank_order (addRanks ps ! i) (addRanks ps ! j)" if "i < j" "j < length ps" for i j
  proof -
    from that assms have "sort_key_of (ps ! i) \<le> sort_key_of (ps ! j)"
      by (simp add: sorted_iff_nth_mono)
    with that show ?thesis by (simp add: nth_addRanks key_le_rank_order)
  qed
  then show ?thesis by (simp add: sorted_wrt_iff_nth_less length_addRanks)
qed

lemma entries_addRanks:
  assumes "e \<in> set (addRanks ps)"
  shows "\<exists>p\<in>set ps. entry_of e p"
proof -
  from assms obtain i where "i < length ps" "e = to_entry (i, ps ! i)"
    by (metis in_set_conv_nth length_addRanks nth_addRanks)
  then show ?thesis by (auto simp: entry_of_def to_entry_def)
qed

lemma addRanks_take: "addRanks (take n ps) = take n (addRanks ps)"
  by (rule nth_equalityI) (simp_all add: length_addRanks nth_addRanks)

lemma sorted_take_keys: "sorted (map f xs) \<Longrightarrow> sorted (map f (take n xs))"
  by (simp add: take_map [symmetric] sorted_wrt_take)

text \<open>
  C5 (amended).  The user-facing leaderboard lists completed participations of the contest
  only: the first 100 rows of an ordering of all of them.  The administrative leaderboard
  lists every participation of the contest, completed or not, each one once.  Both are
  ordered by score descending, then submission date ascending, and both number the rows
  1, 2, ... by position.
\<close>

theorem leaderboards_ranked:
  "(contestLeaderboard db req_user cid = Leaderboard lb ur \<longrightarrow>
      (\<forall>e\<in>set lb. \<exists>p\<in>set (participations db).
          contestId p = cid \<and> isCompleted p \<and> entry_of e p) \<and>
      length lb = min 100 (length (filter (\<lambda>p. contestId p = cid \<and> isCompleted p)
                                      (participations db))) \<and>
      sorted_wrt in_rank_order lb \<and>
      map e_rank lb = [1..<length lb + 1] \<and>
      (\<exists>full. mset full = mset (filter (\<lambda>p. contestId p = cid \<and> isCompleted p)
                                     (participations db)) \<and>
              sorted_wrt in_rank_order (addRanks full) \<and>
              lb = take 100 (addRanks full))) \<and>
   (getLeaderboard db cid = AdminLeaderboard lb' \<longrightarrow>
      (\<forall>e\<in>set lb'. \<exists>p\<in>set (participations db). contestId p = cid \<and> entry_of e p) \<and>
      length lb' = length (filter (\<lambda>p. contestId p = cid) (participations db)) \<and>
      sorted_wrt in_rank_order lb' \<and>
      map e_rank lb' = [1..<length lb' + 1] \<and>
      (\<exists>full. mset full = mset (filter (\<lambda>p. contestId p = cid) (participations db)) \<and>
              lb' = addRanks full))"
proof (intro conjI impI)
  let ?done = "filter (\<lambda>p. contestId p = cid \<and> isCompleted p) (participations db)"
  let ?top = "take 100 (mongo_sort ?done)"
  assume "contestLeaderboard db req_user cid = Leaderboard lb ur"
  then have lb: "lb = addRanks ?top"
    by (simp add: contestLeaderboard_def split: option.splits if_splits)
  have sub: "set ?top \<subseteq> set ?done"
    using set_take_subset [of 100 "mongo_sort ?done"] by (simp add: set_mongo_sort)
  show "\<forall>e\<in>set lb. \<exists>p\<in>set (participations db).
          contestId p = cid \<and> isCompleted p \<and> entry_of e p"
  proof
    fix e assume "e \<in> set lb"
    with lb obtain p where "p \<in> set ?top" "entry_of e p"
      using entries_addRanks by blast
    with sub show "\<exists>p\<in>set (participations db). contestId p = cid \<and> isCompleted p \<and> entry_of e p"
      by auto
  qed
  show "length lb = min 100 (length ?done)"
    by (simp add: lb length_addRanks length_mongo_sort min.commute)
  show "sorted_wrt in_rank_order lb"
    unfolding lb by (intro sorted_addRanks sorted_take_keys sorted_mongo_sort)
  show "map e_rank lb = [1..<length lb + 1]"
    unfolding lb by (simp add: ranks_addRanks length_addRanks)
  have "mset (mongo_sort ?done) = mset ?done \<and>
        sorted_wrt in_rank_order (addRanks (mongo_sort ?done)) \<and>
        lb = take 100 (addRanks (mongo_sort ?done))"
    by (simp add: lb addRanks_take mset_mongo_sort sorted_addRanks sorted_mongo_sort)
  then show "\<exists>full. mset full = mset ?done \<and>
              sorted_wrt in_rank_order (addRanks full) \<and>
              lb = take 100 (addRanks full)"
    by blast
next
  let ?all = "filter (\<lambda>p. contestId p = cid) (participations db)"
  assume "getLeaderboard db cid = AdminLeaderboard lb'"
  then have lb: "lb' = addRanks (mongo_sort ?all)"
    by (simp add: getLeaderboard_def split: option.splits)
  show "\<forall>e\<in>set lb'. \<exists>p\<in>set (participations db). contestId p = cid \<and> entry_of e p"
  proof
    fix e assume "e \<in> set lb'"
    with lb obtain p where "p \<in> set (mongo_sort ?all)" "entry_of e p"
      using entries_addRanks by blast
    then show "\<exists>p\<in>set (participations db). contestId p = cid \<and> entry_of e p"
      by (auto simp: set_mongo_sort)
  qed
  show "length lb' = length ?all"
    by (simp add: lb length_addRanks length_mongo_sort)
  show "sorted_wrt in_rank_order lb'"
    unfolding lb by (intro sorted_addRanks sorted_mongo_sort)
  show "map e_rank lb' = [1..<length lb' + 1]"
    unfolding lb by (simp add: ranks_addRanks length_addRanks)
  have "mset (mongo_sort ?all) = mset ?all \<and> lb' = addRanks (mongo_sort ?all)"
    by (simp add: lb mset_mongo_sort)
  then show "\<exists>full. mset full = mset ?all \<and> lb' = addRanks full"
    by blast
qed

theorem admin_leaderboard_counterexample:
  "participations db_joined = [alice_joined] \<and> \<not> isCompleted alice_joined \<and>
   getLeaderboard db_joined 1 =
     AdminLeaderboard
       [\<lparr>e_userId = 7, e_score = 0, e_correctAnswers = 0, e_wrongAnswers = 0,
         e_submittedAt = None, e_timeSpent = 0, e_rank = 1\<rparr>]"
  by code_simp


theorem leaderboards_ranked_witness:
  "contestLeaderboard db_done (Some alice) 1 =
     Leaderboard
       [\<lparr>e_userId = 8, e_score = 2, e_correctAnswers = 1, e_wrongAnswers = 0,
         e_submittedAt = Some 1400, e_timeSpent = 0, e_rank = 1\<rparr>,
        \<lparr>e_userId = 7, e_score = 2, e_correctAnswers = 1, e_wrongAnswers = 0,
         e_submittedAt = Some 1500, e_timeSpent = 0, e_rank = 2\<rparr>]
       (Some 2) \<and>
   sorted_wrt in_rank_order
       [\<lparr>e_userId = 8, e_score = 2, e_correctAnswers = 1, e_wrongAnswers = 0,
         e_submittedAt = Some 1400, e_timeSpent = 0, e_rank = 1\<rparr>,
        \<lparr>e_userId = 7, e_score = 2, e_correctAnswers = 1, e_wrongAnswers = 0,
         e_submittedAt = Some 1500, e_timeSpent = 0, e_rank = 2\<rparr>] \<and>
   getLeaderboard db_mixed 1 =
     AdminLeaderboard
       [\<lparr>e_userId = 8, e_score = 2, e_correctAnswers = 1, e_wrongAnswers = 0,
         e_submittedAt = Some 1400, e_timeSpent = 0, e_rank = 1\<rparr>,
        \<lparr>e_userId = 7, e_score = 0, e_correctAnswers = 0, e_wrongAnswers = 0,
         e_submittedAt = None, e_timeSpent = 0, e_rank = 2\<rparr>] \<and>
   (\<exists>full. mset full = mset (filter (\<lambda>p. contestId p = 1) (participations db_mixed)) \<and>
      [\<lparr>e_userId = 8, e_score = 2, e_correctAnswers = 1, e_wrongAnswers = 0,
         e_submittedAt = Some 1400, e_timeSpent = 0, e_rank = 1\<rparr>,
        \<lparr>e_userId = 7, e_score = 0, e_correctAnswers = 0, e_wrongAnswers = 0,
         e_submittedAt = None, e_timeSpent = 0, e_rank = 2\<rparr>] = addRanks full) \<and>
   participations db_mixed = [alice_joined, bob_done] \<and>
   contestLeaderboard db_mixed (Some alice) 1 =
     Leaderboard
       [\<lparr>e_userId = 8, e_score = 2, e_correctAnswers = 1, e_wrongAnswers = 0,
         e_submittedAt = Some 1400, e_timeSpent = 0, e_rank = 1\<rparr>]
       None"
proof -
  let ?lb = "[\<lparr>e_userId = 8, e_score = 2, e_correctAnswers = 1, e_wrongAnswers = 0,
         e_submittedAt = Some 1400, e_timeSpent = 0, e_rank = 1\<rparr>,
        \<lparr>e_userId = 7, e_score = 2, e_correctAnswers = 1, e_wrongAnswers = 0,
         e_submittedAt = Some 1500, e_timeSpent = 0, e_rank = 2\<rparr>]"
  let ?lb' = "[\<lparr>e_userId = 8, e_score = 2, e_correctAnswers = 1, e_wrongAnswers = 0,
         e_submittedAt = Some 1400, e_timeSpent = 0, e_rank = 1\<rparr>,
        \<lparr>e_userId = 7, e_score = 0, e_correctAnswers = 0, e_wrongAnswers = 0,
         e_submittedAt = None, e_timeSpent = 0, e_rank = 2::nat\<rparr>]"
  have u: "contestLeaderboard db_done (Some alice) 1 = Leaderboard ?lb (Some 2)"
    by code_simp
  have a: "getLeaderboard db_mixed 1 = AdminLeaderboard ?lb'"
    by code_simp
  have m: "contestLeaderboard db_mixed (Some alice) 1 =
     Leaderboard
       [\<lparr>e_userId = 8, e_score = 2, e_correctAnswers = 1, e_wrongAnswers = 0,
         e_submittedAt = Some 1400, e_timeSpent = 0, e_rank = 1\<rparr>]
       None"
    by code_simp
  have ps: "participations db_mixed = [alice_joined, bob_done]"
    by (simp add: db_mixed_def)
  note t = leaderboards_ranked [of db_done "Some alice" 1 ?lb "Some 2"]
  note t' = leaderboards_ranked [of db_mixed "Some alice" 1 _ _ ?lb']
  from t [THEN conjunct1] u have 1: "sorted_wrt in_rank_order ?lb" by blast
  from t' [THEN conjunct2] a
  have 2: "\<exists>full. mset full = mset (filter (\<lambda>p. contestId p = 1) (participations db_mixed)) \<and>
             ?lb' = addRanks full"
    by blast
  from u 1 a 2 ps m show ?thesis by blast
qed

section \<open>The rank of one identity\<close>

lemma strictlyAhead_query:
  "strictlyAhead q p \<longleftrightarrow>
     score q > score p \<or> (score q = score p \<and> mongo_lt (submittedAt q) (submittedAt p))"
  by (simp add: strictlyAhead_def mongo_lt_def split: option.splits)

lemma strictlyAhead_irrefl: "\<not> strictlyAhead p p"
  by (simp add: strictlyAhead_def split: option.splits)

lemma userRank_spec: "userRank db (Some u) cid = rankOf_spec db (user_id u) cid"
proof -
  have "(contestId q = cid \<and> isCompleted q \<and>
          (score q > score own \<or>
           (score q = score own \<and> mongo_lt (submittedAt q) (submittedAt own))))
        = (q \<noteq> own \<and> contestId q = cid \<and> isCompleted q \<and> strictlyAhead q own)" for q own
    using strictlyAhead_irrefl [of own] by (auto simp: strictlyAhead_query)
  then show ?thesis
    by (simp add: userRank_def rankOf_spec_def split: option.splits)
qed

text \<open>
  C6.  On a leaderboard request by an identity, the reported rank is one plus the number
  of other completed participations of the contest that are strictly ahead (a higher
  score, or the same score submitted earlier), and it is absent when the identity has no
  completed participation in the contest.  An anonymous request reports no rank.
\<close>

theorem rank_of_identity:
  assumes "contestLeaderboard db req_user cid = Leaderboard lb ur"
  shows "(case req_user of
            None \<Rightarrow> ur = None
          | Some u \<Rightarrow>
              ur = rankOf_spec db (user_id u) cid \<and>
              ((\<forall>p\<in>set (participations db).
                  \<not> (userId p = user_id u \<and> contestId p = cid \<and> isCompleted p)) \<longrightarrow>
               ur = None))"
proof (cases req_user)
  case None
  with assms show ?thesis
    by (simp add: contestLeaderboard_def userRank_def split: option.splits if_splits)
next
  case (Some u)
  with assms have ur: "ur = userRank db (Some u) cid"
    by (simp add: contestLeaderboard_def split: option.splits if_splits)
  have "ur = None"
    if "\<forall>p\<in>set (participations db).
          \<not> (userId p = user_id u \<and> contestId p = cid \<and> isCompleted p)"
  proof -
    from that have "find (\<lambda>p. userId p = user_id u \<and> contestId p = cid \<and> isCompleted p)
                      (participations db) = None"
      by (simp add: find_None_iff)
    then show ?thesis by (simp add: ur userRank_def)
  qed
  with ur Some show ?thesis by (simp add: userRank_spec)
qed

theorem rank_of_identity_witness:
  "contestLeaderboard db_done (Some alice) 1 =
     Leaderboard
       [\<lparr>e_userId = 8, e_score = 2, e_correctAnswers = 1, e_wrongAnswers = 0,
         e_submittedAt = Some 1400, e_timeSpent = 0, e_rank = 1\<rparr>,
        \<lparr>e_userId = 7, e_score = 2, e_correctAnswers = 1, e_wrongAnswers = 0,
         e_submittedAt = Some 1500, e_timeSpent = 0, e_rank = 2\<rparr>]
       (Some 2) \<and>
   rankOf_spec db_done (user_id alice) 1 = Some 2 \<and>
   contestLeaderboard db_done (Some carol) 1 =
     Leaderboard
       [\<lparr>e_userId = 8, e_score = 2, e_correctAnswers = 1, e_wrongAnswers = 0,
         e_submittedAt = Some 1400, e_timeSpent = 0, e_rank = 1\<rparr>,
        \<lparr>e_userId = 7, e_score = 2, e_correctAnswers = 1, e_wrongAnswers = 0,
         e_submittedAt = Some 1500, e_timeSpent = 0, e_rank = 2\<rparr>]
       None \<and>
   rankOf_spec db_done (user_id carol) 1 = None"
proof -
  let ?lb = "[\<lparr>e_userId = 8, e_score = 2, e_correctAnswers = 1, e_wrongAnswers = 0,
         e_submittedAt = Some 1400, e_timeSpent = 0, e_rank = 1\<rparr>,
        \<lparr>e_userId = 7, e_score = 2, e_correctAnswers = 1, e_wrongAnswers = 0,
         e_submittedAt = Some 1500, e_timeSpent = 0, e_rank = 2\<rparr>]"
  have a: "contestLeaderboard db_done (Some alice) 1 = Leaderboard ?lb (Some 2)"
    by code_simp
  have c: "contestLeaderboard db_done (Some carol) 1 = Leaderboard ?lb None"
    by code_simp
  from rank_of_identity [OF a] have 1: "rankOf_spec db_done (user_id alice) 1 = Some 2"
    by simp
  from rank_of_identity [OF c] have 2: "rankOf_spec db_done (user_id carol) 1 = None"
    by simp
  from a 1 c 2 show ?thesis by blast
qed

end
